theory Spec2Isabelle
  imports Main "HOL-Library.Word"
begin

unbundle bit_operations_syntax

section \<open>Strings and the regular expressions of the rule\<close>

text \<open>
  The rule \<open>enforce-variable-naming-convention\<close> works on identifier names. The
  character classes of its regular expressions are ASCII ranges, so a name is a
  \<^typ>\<open>string\<close> and a character is read through its code. On ASCII strings
  \<open>String.prototype.toUpperCase\<close> and \<open>toLowerCase\<close> are the maps below. Outside
  ASCII the source applies the Unicode case maps, which these definitions do not follow:
  a \<^typ>\<open>char\<close> above 127 stands for no JavaScript character in this development.
  A name that validates is ASCII by the shape of the validators; a statement about the
  converters on names that need not validate is made for ASCII names (\<open>isAscii\<close>).
\<close>

definition isLower :: "char \<Rightarrow> bool" where
  \<comment> \<open>the class \<open>[a-z]\<close>\<close>
  "isLower c = (97 \<le> (of_char c :: nat) \<and> (of_char c :: nat) \<le> 122)"

definition isUpper :: "char \<Rightarrow> bool" where
  \<comment> \<open>the class \<open>[A-Z]\<close>\<close>
  "isUpper c = (65 \<le> (of_char c :: nat) \<and> (of_char c :: nat) \<le> 90)"

definition isDigit :: "char \<Rightarrow> bool" where
  \<comment> \<open>the class \<open>[0-9]\<close>\<close>
  "isDigit c = (48 \<le> (of_char c :: nat) \<and> (of_char c :: nat) \<le> 57)"

definition isLineTerminator :: "char \<Rightarrow> bool" where
  \<comment> \<open>what \<open>.\<close> refuses to match: line feed and carriage return\<close>
  "isLineTerminator c = ((of_char c :: nat) = 10 \<or> (of_char c :: nat) = 13)"

definition toUpperChar :: "char \<Rightarrow> char" where
  "toUpperChar c = (if isLower c then char_of ((of_char c :: nat) - 32) else c)"

definition toLowerChar :: "char \<Rightarrow> char" where
  "toLowerChar c = (if isUpper c then char_of ((of_char c :: nat) + 32) else c)"

definition toUpperCase :: "string \<Rightarrow> string" where
  "toUpperCase s = map toUpperChar s"

definition toLowerCase :: "string \<Rightarrow> string" where
  "toLowerCase s = map toLowerChar s"

text \<open>
  \<open>/^[first][rest]*$/.test(name)\<close>: without the \<open>m\<close> flag \<open>$\<close> is the end of the
  input, so the whole name has to fit the shape, and the first character is required.
\<close>

fun testShape :: "(char \<Rightarrow> bool) \<Rightarrow> (char \<Rightarrow> bool) \<Rightarrow> string \<Rightarrow> bool" where
  "testShape first rest [] = False"
| "testShape first rest (c # cs) = (first c \<and> list_all rest cs)"

text \<open>
  \<open>name.replace(/[-_](.)/g, (_, char) => char.toUpperCase())\<close>: the matches are taken
  from left to right and do not overlap; a separator with nothing, or a line terminator,
  after it is kept.
\<close>

definition isSeparator :: "char \<Rightarrow> bool" where
  \<comment> \<open>the class \<open>[-_]\<close>\<close>
  "isSeparator c = (c = CHR ''-'' \<or> c = CHR ''_'')"

fun replaceSeparators :: "string \<Rightarrow> string" where
  "replaceSeparators [] = []"
| "replaceSeparators [c] = [c]"
| "replaceSeparators (c # d # cs) =
     (if isSeparator c \<and> \<not> isLineTerminator d
      then toUpperCase [d] @ replaceSeparators cs
      else c # replaceSeparators (d # cs))"

text \<open>\<open>.replace(/^(.)/, f)\<close>: the first character, unless it is a line terminator.\<close>

fun replaceFirstChar :: "(string \<Rightarrow> string) \<Rightarrow> string \<Rightarrow> string" where
  "replaceFirstChar f [] = []"
| "replaceFirstChar f (c # cs) = (if isLineTerminator c then c # cs else f [c] @ cs)"

text \<open>\<open>.replace(/([A-Z])/g, sep + '$1')\<close>: \<open>sep\<close> goes before every capital.\<close>

fun insertBeforeUpper :: "char \<Rightarrow> string \<Rightarrow> string" where
  "insertBeforeUpper sep [] = []"
| "insertBeforeUpper sep (c # cs) =
     (if isUpper c then sep # c # insertBeforeUpper sep cs
      else c # insertBeforeUpper sep cs)"

text \<open>\<open>.replace(/^_/, '')\<close> and \<open>.replace(/^-/, '')\<close>: one leading separator is dropped.\<close>

fun dropLeading :: "char \<Rightarrow> string \<Rightarrow> string" where
  "dropLeading sep [] = []"
| "dropLeading sep (c # cs) = (if c = sep then cs else c # cs)"

section \<open>The case-convention table\<close>

datatype CaseType = camelCase | PascalCase | snake_case | UPPER_SNAKE_CASE | kebab_case

fun caseValidators :: "CaseType \<Rightarrow> string \<Rightarrow> bool" where
  "caseValidators camelCase name =
     testShape isLower (\<lambda>c. isLower c \<or> isUpper c \<or> isDigit c) name"
| "caseValidators PascalCase name =
     testShape isUpper (\<lambda>c. isLower c \<or> isUpper c \<or> isDigit c) name"
| "caseValidators snake_case name =
     testShape isLower (\<lambda>c. isLower c \<or> isDigit c \<or> c = CHR ''_'') name"
| "caseValidators UPPER_SNAKE_CASE name =
     testShape isUpper (\<lambda>c. isUpper c \<or> isDigit c \<or> c = CHR ''_'') name"
| "caseValidators kebab_case name =
     testShape isLower (\<lambda>c. isLower c \<or> isDigit c \<or> c = CHR ''-'') name"

fun caseConverters :: "CaseType \<Rightarrow> string \<Rightarrow> string" where
  "caseConverters camelCase name =
     replaceFirstChar toLowerCase (replaceSeparators name)"
| "caseConverters PascalCase name =
     replaceFirstChar toUpperCase (replaceSeparators name)"
| "caseConverters snake_case name =
     dropLeading (CHR ''_'') (toLowerCase (insertBeforeUpper (CHR ''_'') name))"
| "caseConverters UPPER_SNAKE_CASE name =
     dropLeading (CHR ''_'') (toUpperCase (insertBeforeUpper (CHR ''_'') name))"
| "caseConverters kebab_case name =
     dropLeading (CHR ''-'') (toLowerCase (insertBeforeUpper (CHR ''-'') name))"

section \<open>Syntax trees, configuration and host services\<close>

text \<open>
  The rule reads a few fields of a \<open>VariableDeclarator\<close> node. Of the binding target
  it reads the node type, the name and the type annotation of an identifier; of the
  initializer it reads the node type, the callee of a call, the tag of a tagged
  template and the object of a member access. Every other child is left out.
  \<open>OtherExpression t\<close> is a node of any remaining kind, \<open>t\<close> being its type tag
  (none of the tags of the other constructors).
\<close>

datatype TypeNode = TSAnyKeyword | TSOtherKeyword string

datatype BindingName =
    IdentifierTarget string "TypeNode option"
  | ArrayPattern
  | ObjectPattern

datatype Expression =
    Literal
  | TemplateLiteral
  | ArrayExpression
  | ObjectExpression
  | Identifier string
  | UnaryExpression
  | BinaryExpression
  | LogicalExpression
  | ConditionalExpression
  | MemberExpression Expression
  | CallExpression Expression
  | TaggedTemplateExpression Expression
  | ArrowFunctionExpression
  | FunctionExpression
  | OtherExpression string

fun nodeType :: "Expression \<Rightarrow> string" where
  "nodeType Literal = ''Literal''"
| "nodeType TemplateLiteral = ''TemplateLiteral''"
| "nodeType ArrayExpression = ''ArrayExpression''"
| "nodeType ObjectExpression = ''ObjectExpression''"
| "nodeType (Identifier n) = ''Identifier''"
| "nodeType UnaryExpression = ''UnaryExpression''"
| "nodeType BinaryExpression = ''BinaryExpression''"
| "nodeType LogicalExpression = ''LogicalExpression''"
| "nodeType ConditionalExpression = ''ConditionalExpression''"
| "nodeType (MemberExpression obj) = ''MemberExpression''"
| "nodeType (CallExpression callee) = ''CallExpression''"
| "nodeType (TaggedTemplateExpression tag) = ''TaggedTemplateExpression''"
| "nodeType ArrowFunctionExpression = ''ArrowFunctionExpression''"
| "nodeType FunctionExpression = ''FunctionExpression''"
| "nodeType (OtherExpression t) = t"

record Declarator =
  node_id :: BindingName
  node_init :: "Expression option"

text \<open>
  The constants that \<open>create\<close> binds once per run. A compiled \<open>RegExp\<close> is the
  predicate its \<open>test\<close> method computes (the patterns carry no flag, so \<open>test\<close> keeps
  no state).
\<close>

record Config =
  caseType :: CaseType
  allowedPatterns :: "(string \<Rightarrow> bool) list"
  excludeTypes :: "string list"
  componentCreators :: "string list"
  styledLibraries :: "string list"
  hookPattern :: "(string \<Rightarrow> bool) option"
  checkFunctions :: bool
  ignoreDestructuring :: bool
  ignoreImports :: bool

text \<open>
  The options object as the host hands it over: every property may be missing. A
  missing property and, for \<open>hookPattern\<close>, \<open>null\<close> are \<open>None\<close>.
\<close>

record Options =
  opt_caseType :: "CaseType option"
  opt_allowedPatterns :: "string list option"
  opt_excludeTypes :: "string list option"
  opt_componentCreators :: "string list option"
  opt_styledLibraries :: "string list option"
  opt_hookPattern :: "string option"
  opt_checkFunctions :: "bool option"
  opt_ignoreDestructuring :: "bool option"
  opt_ignoreImports :: "bool option"

definition orElse :: "'a option \<Rightarrow> 'a \<Rightarrow> 'a" where
  \<comment> \<open>\<open>x || d\<close> and \<open>x ?? d\<close> on a value that is missing or an object, array or boolean
     (\<open>||\<close> is only applied to enum strings and arrays here)\<close>
  "orElse x d = (case x of None \<Rightarrow> d | Some v \<Rightarrow> v)"

text \<open>
  The head of \<open>create\<close>. \<open>regExp p\<close> is \<open>new RegExp(p)\<close>, a parameter: the regular
  expression engine belongs to the host. An empty \<open>hookPattern\<close> string is falsy and
  disables the pattern like \<open>null\<close>.
\<close>

definition create :: "(string \<Rightarrow> string \<Rightarrow> bool) \<Rightarrow> Options \<Rightarrow> Config" where
  "create regExp options =
    \<lparr> caseType = orElse (opt_caseType options) camelCase,
      allowedPatterns = map regExp (orElse (opt_allowedPatterns options) []),
      excludeTypes = orElse (opt_excludeTypes options) [],
      componentCreators = orElse (opt_componentCreators options)
        [''lazy'', ''styled'', ''createElement'', ''memo'', ''forwardRef'', ''createContext''],
      styledLibraries = orElse (opt_styledLibraries options) [''styled''],
      hookPattern = (case opt_hookPattern options of
                       None \<Rightarrow> None
                     | Some p \<Rightarrow> if p = [] then None else Some (regExp p)),
      checkFunctions = orElse (opt_checkFunctions options) False,
      ignoreDestructuring = orElse (opt_ignoreDestructuring options) False,
      ignoreImports = orElse (opt_ignoreImports options) False \<rparr>"

text \<open>
  What the type checker, the source text and the scope manager answer. The body of the
  \<open>try\<close> in \<open>hasAnyType\<close> (node lookup, \<open>getTypeAtLocation\<close>, \<open>typeToString\<close>) is one
  query that either throws or yields the flags and the display name of the type.
\<close>

datatype Thrown = Thrown string

record TSType =
  flags :: "32 word"
  typeString :: string

record Variable =
  var_name :: string
  var_defs :: "string list"

record Services =
  getTypeAtLocation :: "BindingName \<Rightarrow> Thrown + TSType"
  getText :: "Expression \<Rightarrow> string"
  getScope :: "Declarator \<Rightarrow> Variable list option"

section \<open>The classifiers\<close>

definition isValidCase :: "Config \<Rightarrow> string \<Rightarrow> bool" where
  "isValidCase cfg name = caseValidators (caseType cfg) name"

definition convertToCase :: "Config \<Rightarrow> string \<Rightarrow> string" where
  "convertToCase cfg name = caseConverters (caseType cfg) name"

definition isAllowedByPattern :: "Config \<Rightarrow> string \<Rightarrow> bool" where
  "isAllowedByPattern cfg name = list_ex (\<lambda>pattern. pattern name) (allowedPatterns cfg)"

definition hasAnyType :: "Config \<Rightarrow> Services \<Rightarrow> Declarator \<Rightarrow> bool" where
  "hasAnyType cfg sv node =
    (case node_id node of
       IdentifierTarget n (Some TSAnyKeyword) \<Rightarrow> True
     | _ \<Rightarrow>
        (case getTypeAtLocation sv (node_id node) of
           Inl e \<Rightarrow> False
         | Inr ty \<Rightarrow>
             if typeString ty \<in> set (excludeTypes cfg) then False
             else (flags ty AND push_bit 0 1) \<noteq> 0 \<or> typeString ty = ''any''))"

fun isComponentCreatorNode :: "Config \<Rightarrow> Expression \<Rightarrow> bool" where
  "isComponentCreatorNode cfg init =
    (if componentCreators cfg = [] \<and> styledLibraries cfg = [] then False
     else
       (case init of
          TaggedTemplateExpression tag \<Rightarrow>
            (case tag of
               MemberExpression (Identifier n) \<Rightarrow> n \<in> set (styledLibraries cfg)
             | Identifier n \<Rightarrow> n \<in> set (styledLibraries cfg)
             | _ \<Rightarrow> False)
        | CallExpression callee \<Rightarrow>
            (case callee of
               Identifier n \<Rightarrow> n \<in> set (componentCreators cfg)
             | MemberExpression (Identifier n) \<Rightarrow> n \<in> set (styledLibraries cfg)
             | CallExpression c \<Rightarrow> isComponentCreatorNode cfg callee
             | _ \<Rightarrow> False)
        | _ \<Rightarrow> False))"

declare isComponentCreatorNode.simps [simp del]

definition isComponentCreator :: "Config \<Rightarrow> Expression option \<Rightarrow> bool" where
  "isComponentCreator cfg init =
    (case init of None \<Rightarrow> False | Some e \<Rightarrow> isComponentCreatorNode cfg e)"

text \<open>
  \<open>/^[A-Z][a-zA-Z0-9_]*\[/.test(text)\<close>: the bracket is outside the class of the
  starred part, so the match succeeds exactly when the bracket follows the longest run.
\<close>

definition testIndexedComponent :: "string \<Rightarrow> bool" where
  "testIndexedComponent text =
    (case text of
       [] \<Rightarrow> False
     | c # cs \<Rightarrow>
         isUpper c \<and>
         (case dropWhile (\<lambda>d. isLower d \<or> isUpper d \<or> isDigit d \<or> d = CHR ''_'') cs of
            [] \<Rightarrow> False
          | d # ds \<Rightarrow> d = CHR ''[''))"

definition isMemberExpressionComponent :: "Services \<Rightarrow> Expression option \<Rightarrow> bool" where
  "isMemberExpressionComponent sv init =
    (case init of
       Some (MemberExpression obj) \<Rightarrow> testIndexedComponent (getText sv (MemberExpression obj))
     | _ \<Rightarrow> False)"

definition simpleTypes :: "string list" where
  "simpleTypes =
    [''Literal'', ''TemplateLiteral'', ''ArrayExpression'', ''ObjectExpression'',
     ''Identifier'', ''UnaryExpression'', ''BinaryExpression'', ''LogicalExpression'',
     ''ConditionalExpression'', ''MemberExpression'']"

definition isSimpleValue :: "Config \<Rightarrow> Services \<Rightarrow> Declarator \<Rightarrow> bool" where
  "isSimpleValue cfg sv node =
    (case node_init node of
       None \<Rightarrow> False
     | Some init \<Rightarrow>
         if isComponentCreator cfg (Some init) \<or> isMemberExpressionComponent sv (Some init)
         then False
         else if nodeType init \<in> set simpleTypes then True
         else
           (case init of
              CallExpression (Identifier n) \<Rightarrow>
                (case hookPattern cfg of Some p \<Rightarrow> p n | None \<Rightarrow> False)
            | _ \<Rightarrow> nodeType init = ''CallExpression''))"

definition isFunction :: "Declarator \<Rightarrow> bool" where
  "isFunction node =
    (case node_init node of
       Some ArrowFunctionExpression \<Rightarrow> True
     | Some FunctionExpression \<Rightarrow> True
     | _ \<Rightarrow> False)"

definition isImportedVariable :: "Services \<Rightarrow> Declarator \<Rightarrow> bool" where
  "isImportedVariable sv node =
    (case node_id node of
       IdentifierTarget varName ann \<Rightarrow>
         (case getScope sv node of
            None \<Rightarrow> False
          | Some variables \<Rightarrow>
              (case find (\<lambda>v. var_name v = varName) variables of
                 None \<Rightarrow> False
               | Some variable \<Rightarrow> list_ex (\<lambda>d. d = ''ImportBinding'') (var_defs variable)))
     | _ \<Rightarrow> False)"

section \<open>The visitor\<close>

record Finding =
  currentName :: string
  expectedCase :: CaseType
  suggestedName :: string
  fixText :: string

definition reportNamingIssue :: "Config \<Rightarrow> string \<Rightarrow> Finding list" where
  "reportNamingIssue cfg varName =
    (let suggested = convertToCase cfg varName in
     if suggested = varName then []
     else [\<lparr> currentName = varName, expectedCase = caseType cfg,
             suggestedName = suggested, fixText = suggested \<rparr>])"

text \<open>
  The handler returns nothing; what it does is the list of calls of \<open>context.report\<close>.
  \<open>Exit\<close> names the statement at which the handler leaves, in the order of the source.
\<close>

datatype Exit =
    ReturnIgnoredDestructuring
  | ReturnNotIdentifier
  | ReturnImported
  | ReturnAllowedByPattern
  | ReturnFunction
  | ReturnNotTargeted
  | EndValid
  | EndReported "Finding list"

definition VariableDeclarator :: "Config \<Rightarrow> Services \<Rightarrow> Declarator \<Rightarrow> Exit" where
  "VariableDeclarator cfg sv node =
    (case node_id node of
       IdentifierTarget varName ann \<Rightarrow>
         if ignoreImports cfg \<and> isImportedVariable sv node then ReturnImported
         else if isAllowedByPattern cfg varName then ReturnAllowedByPattern
         else if isFunction node \<and> \<not> checkFunctions cfg then ReturnFunction
         else
           (let hasAny = hasAnyType cfg sv node;
                isSimple = isSimpleValue cfg sv node
            in if \<not> hasAny \<and> \<not> isSimple then ReturnNotTargeted
               else if \<not> isValidCase cfg varName
                    then EndReported (reportNamingIssue cfg varName)
                    else EndValid)
     | _ \<Rightarrow>
         if ignoreDestructuring cfg then ReturnIgnoredDestructuring
         else ReturnNotIdentifier)"

fun reported :: "Exit \<Rightarrow> Finding list" where
  "reported (EndReported fs) = fs"
| "reported e = []"

definition findings :: "Config \<Rightarrow> Services \<Rightarrow> Declarator \<Rightarrow> Finding list" where
  "findings cfg sv node = reported (VariableDeclarator cfg sv node)"


section \<open>The guard chain as a predicate\<close>

text \<open>
  The specification of the decision engine lists the exclusions in order: a binding
  target that is a pattern (guards 1 and 2), an import binding when imports are ignored
  (3), a name on the allowlist (4), a function initializer when functions are not
  checked (5), and a declarator that has neither a dynamic type nor a simple shape (6).
  \<open>inScope\<close> is that list read as one predicate: the declarator passes all six.
\<close>

definition inScope :: "Config \<Rightarrow> Services \<Rightarrow> Declarator \<Rightarrow> bool" where
  "inScope cfg sv node =
    (case node_id node of
       IdentifierTarget varName ann \<Rightarrow>
         \<not> (ignoreImports cfg \<and> isImportedVariable sv node)
         \<and> \<not> isAllowedByPattern cfg varName
         \<and> \<not> (isFunction node \<and> \<not> checkFunctions cfg)
         \<and> (hasAnyType cfg sv node \<or> isSimpleValue cfg sv node)
     | _ \<Rightarrow> False)"

section \<open>Sample configurations, services and declarators\<close>

text \<open>
  \<open>defaultConfig\<close> is what \<open>create\<close> binds for the rule's \<open>defaultOptions\<close>, with
  \<open>/^use[A-Z]/\<close> as the predicate \<open>testUseHook\<close>. \<open>noOptions\<close> is the options object
  \<open>{}\<close>. \<open>failingServices\<close> is a host whose type query always throws;
  \<open>typedServices\<close> answers every type query with the type \<open>any\<close>.
\<close>

definition testUseHook :: "string \<Rightarrow> bool" where
  "testUseHook s =
    (take 3 s = ''use'' \<and> (case drop 3 s of [] \<Rightarrow> False | c # cs \<Rightarrow> isUpper c))"

definition defaultConfig :: Config where
  "defaultConfig =
    \<lparr> caseType = camelCase, allowedPatterns = [], excludeTypes = [],
      componentCreators =
        [''lazy'', ''styled'', ''createElement'', ''memo'', ''forwardRef'', ''createContext''],
      styledLibraries = [''styled''], hookPattern = Some testUseHook,
      checkFunctions = False, ignoreDestructuring = False, ignoreImports = False \<rparr>"

definition excludeAnyConfig :: Config where
  "excludeAnyConfig = defaultConfig \<lparr> excludeTypes := [''any''] \<rparr>"

definition ignoringConfig :: Config where
  "ignoringConfig =
    defaultConfig \<lparr> allowedPatterns := [\<lambda>name. True], ignoreDestructuring := True \<rparr>"

definition noOptions :: Options where
  "noOptions =
    \<lparr> opt_caseType = None, opt_allowedPatterns = None, opt_excludeTypes = None,
      opt_componentCreators = None, opt_styledLibraries = None, opt_hookPattern = None,
      opt_checkFunctions = None, opt_ignoreDestructuring = None, opt_ignoreImports = None \<rparr>"

definition noFactoryOptions :: Options where
  "noFactoryOptions =
    noOptions \<lparr> opt_componentCreators := Some [], opt_styledLibraries := Some [] \<rparr>"

definition neverMatches :: "string \<Rightarrow> string \<Rightarrow> bool" where
  \<comment> \<open>a regular expression engine in which no pattern matches anything\<close>
  "neverMatches p s = False"

definition failingServices :: Services where
  "failingServices =
    \<lparr> getTypeAtLocation = (\<lambda>target. Inl (Thrown ''no type information'')),
      getText = (\<lambda>e. []),
      getScope = (\<lambda>node. None) \<rparr>"

definition typedServices :: Services where
  "typedServices =
    \<lparr> getTypeAtLocation = (\<lambda>target. Inr \<lparr> flags = 1, typeString = ''any'' \<rparr>),
      getText = (\<lambda>e. []),
      getScope =
        (\<lambda>node. Some [\<lparr> var_name = ''imported'', var_defs = [''ImportBinding''] \<rparr>]) \<rparr>"

definition styledButton :: Declarator where
  \<comment> \<open>\<open>const Styled_button = styled.button`...`\<close>\<close>
  "styledButton =
    \<lparr> node_id = IdentifierTarget ''Styled_button'' None,
      node_init = Some (TaggedTemplateExpression (MemberExpression (Identifier ''styled''))) \<rparr>"

definition sqlQuery :: Declarator where
  \<comment> \<open>\<open>const user_query = sql`...`\<close>\<close>
  "sqlQuery =
    \<lparr> node_id = IdentifierTarget ''user_query'' None,
      node_init = Some (TaggedTemplateExpression (Identifier ''sql'')) \<rparr>"

definition destructured :: Declarator where
  \<comment> \<open>\<open>const { a, b } = props\<close>\<close>
  "destructured = \<lparr> node_id = ObjectPattern, node_init = Some (Identifier ''props'') \<rparr>"

definition annotatedAny :: Declarator where
  \<comment> \<open>\<open>const raw_payload: any = await ...\<close>\<close>
  "annotatedAny =
    \<lparr> node_id = IdentifierTarget ''raw_payload'' (Some TSAnyKeyword),
      node_init = Some (OtherExpression ''AwaitExpression'') \<rparr>"



definition upperSnakeConfig :: Config where
  "upperSnakeConfig = defaultConfig \<lparr> caseType := UPPER_SNAKE_CASE \<rparr>"

section \<open>Creating the rule\<close>





section \<open>Names on which converting twice is converting once\<close>


definition isLetter :: "char \<Rightarrow> bool" where
  "isLetter c = (isLower c \<or> isUpper c)"






fun hasMatch :: "string \<Rightarrow> bool" where
  "hasMatch [] = False"
| "hasMatch [c] = False"
| "hasMatch (c # d # cs) = ((isSeparator c \<and> \<not> isLineTerminator d) \<or> hasMatch (d # cs))"



section \<open>Character classes\<close>

lemma lower_not_upper: "isLower c \<Longrightarrow> \<not> isUpper c"
  by (simp add: isLower_def isUpper_def)

lemma digit_not_upper: "isDigit c \<Longrightarrow> \<not> isUpper c"
  by (simp add: isDigit_def isUpper_def)

lemma lower_not_separator: "isLower c \<Longrightarrow> \<not> isSeparator c"
  by (auto simp add: isLower_def isSeparator_def)

lemma upper_not_separator: "isUpper c \<Longrightarrow> \<not> isSeparator c"
  by (auto simp add: isUpper_def isSeparator_def)

lemma digit_not_separator: "isDigit c \<Longrightarrow> \<not> isSeparator c"
  by (auto simp add: isDigit_def isSeparator_def)

lemma lower_not_terminator: "isLower c \<Longrightarrow> \<not> isLineTerminator c"
  by (auto simp add: isLower_def isLineTerminator_def)

lemma upper_not_terminator: "isUpper c \<Longrightarrow> \<not> isLineTerminator c"
  by (auto simp add: isUpper_def isLineTerminator_def)

lemma toLowerChar_fixed: "\<not> isUpper c \<Longrightarrow> toLowerChar c = c"
  by (simp add: toLowerChar_def)

lemma toUpperChar_fixed: "\<not> isLower c \<Longrightarrow> toUpperChar c = c"
  by (simp add: toUpperChar_def)

lemma list_all_weaken: "list_all P xs \<Longrightarrow> (\<And>x. P x \<Longrightarrow> Q x) \<Longrightarrow> list_all Q xs"
  by (induction xs) simp_all

section \<open>Replacements that leave a name alone\<close>

lemma replaceSeparators_fixed:
  "list_all (\<lambda>c. \<not> isSeparator c) name \<Longrightarrow> replaceSeparators name = name"
  by (induction name rule: replaceSeparators.induct) simp_all

lemma insertBeforeUpper_fixed:
  "list_all (\<lambda>c. \<not> isUpper c) name \<Longrightarrow> insertBeforeUpper sep name = name"
  by (induction name) simp_all

lemma toLowerCase_fixed:
  "list_all (\<lambda>c. \<not> isUpper c) name \<Longrightarrow> toLowerCase name = name"
  by (induction name) (simp_all add: toLowerCase_def toLowerChar_fixed)

lemma camelCase_fixed:
  assumes "caseValidators camelCase name"
  shows "caseConverters camelCase name = name"
proof (cases name)
  case Nil
  with assms show ?thesis by simp
next
  case (Cons c cs)
  with assms have c: "isLower c"
    and cs: "list_all (\<lambda>d. isLower d \<or> isUpper d \<or> isDigit d) cs" by simp_all
  have "list_all (\<lambda>d. \<not> isSeparator d) cs"
    using cs by (rule list_all_weaken)
      (auto dest: lower_not_separator upper_not_separator digit_not_separator)
  with c have "replaceSeparators name = name"
    using Cons by (simp add: replaceSeparators_fixed lower_not_separator)
  moreover have "replaceFirstChar toLowerCase (c # cs) = c # cs"
    using c by (simp add: lower_not_terminator toLowerCase_def toLowerChar_fixed lower_not_upper)
  ultimately show ?thesis using Cons by simp
qed

lemma PascalCase_fixed:
  assumes "caseValidators PascalCase name"
  shows "caseConverters PascalCase name = name"
proof (cases name)
  case Nil
  with assms show ?thesis by simp
next
  case (Cons c cs)
  with assms have c: "isUpper c"
    and cs: "list_all (\<lambda>d. isLower d \<or> isUpper d \<or> isDigit d) cs" by simp_all
  have "list_all (\<lambda>d. \<not> isSeparator d) cs"
    using cs by (rule list_all_weaken)
      (auto dest: lower_not_separator upper_not_separator digit_not_separator)
  with c have "replaceSeparators name = name"
    using Cons by (simp add: replaceSeparators_fixed upper_not_separator)
  moreover have "\<not> isLower c" using c lower_not_upper by blast
  then have "replaceFirstChar toUpperCase (c # cs) = c # cs"
    using c by (simp add: upper_not_terminator toUpperCase_def toUpperChar_fixed)
  ultimately show ?thesis using Cons by simp
qed

lemma separated_lower_fixed:
  assumes "testShape isLower (\<lambda>c. isLower c \<or> isDigit c \<or> c = sep) name"
    and "\<not> isUpper sep" and "\<not> isLower sep"
  shows "dropLeading sep (toLowerCase (insertBeforeUpper sep name)) = name"
proof (cases name)
  case Nil
  then show ?thesis by (simp add: toLowerCase_def)
next
  case (Cons c cs)
  with assms have c: "isLower c"
    and cs: "list_all (\<lambda>d. isLower d \<or> isDigit d \<or> d = sep) cs" by simp_all
  have "list_all (\<lambda>d. \<not> isUpper d) cs"
    using cs by (rule list_all_weaken) (use assms(2) in \<open>auto dest: lower_not_upper digit_not_upper\<close>)
  with c have noUpper: "list_all (\<lambda>d. \<not> isUpper d) name"
    using Cons by (simp add: lower_not_upper)
  from c assms(3) have "c \<noteq> sep" by blast
  with noUpper show ?thesis
    using Cons by (simp add: insertBeforeUpper_fixed toLowerCase_fixed)
qed

lemma snake_case_fixed:
  "caseValidators snake_case name \<Longrightarrow> caseConverters snake_case name = name"
  by (simp add: separated_lower_fixed isUpper_def isLower_def)

lemma kebab_case_fixed:
  "caseValidators kebab_case name \<Longrightarrow> caseConverters kebab_case name = name"
  by (simp add: separated_lower_fixed isUpper_def isLower_def)

text \<open>
  Under camelCase, PascalCase, snake_case and kebab-case a name that validates is
  returned unchanged by the converter of the same convention.
\<close>

lemma valid_name_fixed:
  assumes "C \<noteq> UPPER_SNAKE_CASE" and "caseValidators C name"
  shows "caseConverters C name = name"
proof (cases C)
  case camelCase
  with assms show ?thesis by (simp only: camelCase_fixed)
next
  case PascalCase
  with assms show ?thesis by (simp only: PascalCase_fixed)
next
  case snake_case
  with assms show ?thesis by (simp only: snake_case_fixed)
next
  case UPPER_SNAKE_CASE
  with assms show ?thesis by simp
next
  case kebab_case
  with assms show ?thesis by (simp only: kebab_case_fixed)
qed

section \<open>Evaluations on sample names\<close>

lemma my_variable_converted: "caseConverters camelCase ''my_variable'' = ''myVariable''"
  by code_simp

lemma my_variable_invalid: "\<not> caseValidators camelCase ''my_variable''"
  by (simp add: isLower_def isUpper_def isDigit_def)

lemma my_variable_renamed: "''myVariable'' \<noteq> ''my_variable''"
  by simp

lemma trailing_separator_kept: "caseConverters camelCase ''a_'' = ''a_''"
  by code_simp

lemma trailing_separator_invalid: "\<not> caseValidators camelCase ''a_''"
  by (simp add: isLower_def isUpper_def isDigit_def)




lemma default_caseType: "caseType defaultConfig = camelCase"
  by (simp add: defaultConfig_def)

lemma literal_not_creator: "\<not> isComponentCreatorNode cfg Literal"
  by (subst isComponentCreatorNode.simps) simp

lemma literal_in_scope:
  "inScope defaultConfig failingServices
     \<lparr> node_id = IdentifierTarget n None, node_init = Some Literal \<rparr>"
  by (simp add: inScope_def defaultConfig_def failingServices_def isAllowedByPattern_def
      isFunction_def isSimpleValue_def isComponentCreator_def literal_not_creator
      isMemberExpressionComponent_def simpleTypes_def)

section \<open>Conversions applied twice\<close>











lemma replaceSeparators_length_le: "length (replaceSeparators m) \<le> length m"
  by (induction m rule: replaceSeparators.induct) (auto simp add: toUpperCase_def)

lemma replaceSeparators_shorter: "hasMatch m \<Longrightarrow> length (replaceSeparators m) < length m"
proof (induction m rule: replaceSeparators.induct)
  case (3 c d cs)
  show ?case
  proof (cases "isSeparator c \<and> \<not> isLineTerminator d")
    case True
    have "length (replaceSeparators cs) \<le> length cs" by (rule replaceSeparators_length_le)
    with True show ?thesis by (simp add: toUpperCase_def)
  next
    case False
    with 3 show ?thesis by auto
  qed
qed simp_all

lemma replaceSeparators_no_match: "\<not> hasMatch m \<Longrightarrow> replaceSeparators m = m"
  by (induction m rule: replaceSeparators.induct) auto

lemma replaceSeparators_fixed_iff: "(replaceSeparators m = m) = (\<not> hasMatch m)"
proof
  assume fixed: "replaceSeparators m = m"
  show "\<not> hasMatch m"
  proof
    assume "hasMatch m"
    then have "length (replaceSeparators m) < length m" by (rule replaceSeparators_shorter)
    with fixed show False by simp
  qed
next
  assume "\<not> hasMatch m"
  then show "replaceSeparators m = m" by (rule replaceSeparators_no_match)
qed



















lemma underscore_plain:
  "\<not> isUpper (CHR ''_'')" "\<not> isLower (CHR ''_'')" "\<not> isLetter (CHR ''_'')"
  by (simp_all add: isUpper_def isLower_def isLetter_def)



lemma toUpperCase_fixed: "list_all (\<lambda>c. \<not> isLower c) x \<Longrightarrow> toUpperCase x = x"
  by (induction x) (simp_all add: toUpperCase_def toUpperChar_fixed)

lemma insertBeforeUpper_no_lower:
  "\<not> isLower s \<Longrightarrow> list_all (\<lambda>c. \<not> isLower c) x
    \<Longrightarrow> list_all (\<lambda>c. \<not> isLower c) (insertBeforeUpper s x)"
  by (induction x) simp_all

lemma insertBeforeUpper_length:
  "length (insertBeforeUpper s x) = length x + length (filter isUpper x)"
  by (induction x) simp_all


















lemma upper_snake_on_capitals:
  "list_all (\<lambda>c. \<not> isLower c) x
    \<Longrightarrow> caseConverters UPPER_SNAKE_CASE x
        = dropLeading (CHR ''_'') (insertBeforeUpper (CHR ''_'') x)"
  by (simp add: toUpperCase_fixed insertBeforeUpper_no_lower underscore_plain)



section \<open>Valid names under UPPER_SNAKE_CASE\<close>

lemma insertBeforeUpper_fixed_iff:
  "(insertBeforeUpper s x = x) = list_all (\<lambda>c. \<not> isUpper c) x"
proof
  assume fixed: "insertBeforeUpper s x = x"
  have "length (insertBeforeUpper s x) = length x + length (filter isUpper x)"
    by (rule insertBeforeUpper_length)
  with fixed have "filter isUpper x = []" by simp
  then show "list_all (\<lambda>c. \<not> isUpper c) x"
    by (simp add: filter_empty_conv list_all_iff)
next
  assume "list_all (\<lambda>c. \<not> isUpper c) x"
  then show "insertBeforeUpper s x = x" by (rule insertBeforeUpper_fixed)
qed

lemma upper_snake_valid_fixed_iff:
  assumes "caseValidators UPPER_SNAKE_CASE name"
  shows "(caseConverters UPPER_SNAKE_CASE name = name) = list_all (\<lambda>c. \<not> isUpper c) (tl name)"
proof (cases name)
  case Nil
  with assms show ?thesis by simp
next
  case (Cons c cs)
  with assms have c: "isUpper c"
    and cs: "list_all (\<lambda>d. isUpper d \<or> isDigit d \<or> d = CHR ''_'') cs" by simp_all
  have "list_all (\<lambda>d. \<not> isLower d) cs"
    using cs by (rule list_all_weaken)
      (auto simp add: isLower_def isDigit_def isUpper_def)
  with c have "list_all (\<lambda>d. \<not> isLower d) name"
    using Cons lower_not_upper by auto
  then have "caseConverters UPPER_SNAKE_CASE name
      = dropLeading (CHR ''_'') (insertBeforeUpper (CHR ''_'') name)"
    by (rule upper_snake_on_capitals)
  with c Cons have "caseConverters UPPER_SNAKE_CASE name = c # insertBeforeUpper (CHR ''_'') cs"
    by simp
  with Cons show ?thesis by (simp add: insertBeforeUpper_fixed_iff)
qed

lemma valid_name_not_reported:
  assumes "caseValidators (caseType cfg) name" and "node_id node = IdentifierTarget name ann"
  shows "findings cfg sv node = []"
  using assms by (simp add: findings_def VariableDeclarator_def isValidCase_def Let_def)


lemma ab_valid: "caseValidators UPPER_SNAKE_CASE ''AB''"
  by (simp add: isUpper_def)

lemma ab_second_capital: "\<not> list_all (\<lambda>c. \<not> isUpper c) (tl ''AB'')"
  by (simp add: isUpper_def)

lemma a1_valid: "caseValidators UPPER_SNAKE_CASE ''A_1''"
  by (simp add: isUpper_def isDigit_def)

lemma a1_no_capital: "list_all (\<lambda>c. \<not> isUpper c) (tl ''A_1'')"
  by (simp add: isUpper_def)

lemma upper_snake_caseType: "caseType upperSnakeConfig = UPPER_SNAKE_CASE"
  by (simp add: upperSnakeConfig_def)


section \<open>Creation and the type query\<close>












section \<open>The case-convention table: fixed points, idempotence, the empty name\<close>

text \<open>
  C2, as stated: every name that validates under a convention is returned unchanged by
  the converter of that convention. The converter of UPPER_SNAKE_CASE puts an underscore
  before every capital letter, so the valid name \<open>AB\<close> is converted to \<open>A_B\<close>.
\<close>

theorem valid_name_fixed_point_refuted:
  "caseValidators UPPER_SNAKE_CASE ''AB'' \<and> caseConverters UPPER_SNAKE_CASE ''AB'' \<noteq> ''AB''"
  by (simp add: isUpper_def isLower_def toUpperCase_def toUpperChar_def)

text \<open>
  C2, amended: for a name that validates under a convention, the converter of that
  convention returns it unchanged under camelCase, PascalCase, snake_case and
  kebab-case, and under UPPER_SNAKE_CASE exactly when the name has no capital letter
  after its first character. The visitor calls the converter only after validation has
  failed, so a name that validates is never converted and never reported.
\<close>

theorem valid_name_fixed_unless_upper_snake:
  assumes "caseValidators C name"
  shows "((caseConverters C name = name)
          = (C \<noteq> UPPER_SNAKE_CASE \<or> list_all (\<lambda>c. \<not> isUpper c) (tl name)))
    \<and> (caseType cfg = C \<and> node_id node = IdentifierTarget name ann
          \<longrightarrow> findings cfg sv node = [])"
proof -
  have "(caseConverters C name = name)
      = (C \<noteq> UPPER_SNAKE_CASE \<or> list_all (\<lambda>c. \<not> isUpper c) (tl name))"
  proof (cases "C = UPPER_SNAKE_CASE")
    case True
    with assms show ?thesis by (simp only: upper_snake_valid_fixed_iff simp_thms)
  next
    case False
    with assms have "caseConverters C name = name" by (rule valid_name_fixed [rotated -1])
    with False show ?thesis by simp
  qed
  moreover have "caseType cfg = C \<and> node_id node = IdentifierTarget name ann
      \<longrightarrow> findings cfg sv node = []"
    using assms valid_name_not_reported by blast
  ultimately show ?thesis by (rule conjI)
qed

theorem valid_name_fixed_unless_upper_snake_witness:
  "caseValidators UPPER_SNAKE_CASE ''AB''
   \<and> caseConverters UPPER_SNAKE_CASE ''AB'' \<noteq> ''AB''
   \<and> findings upperSnakeConfig failingServices
        \<lparr> node_id = IdentifierTarget ''AB'' None, node_init = Some Literal \<rparr> = []
   \<and> caseValidators UPPER_SNAKE_CASE ''A_1''
   \<and> caseConverters UPPER_SNAKE_CASE ''A_1'' = ''A_1''
   \<and> caseValidators camelCase ''myVariable''
   \<and> caseConverters camelCase ''myVariable'' = ''myVariable''"
proof -
  have camel: "caseValidators camelCase ''myVariable''"
    by (simp add: isLower_def isUpper_def isDigit_def)
  have target: "node_id \<lparr> node_id = IdentifierTarget ''AB'' None, node_init = Some Literal \<rparr>
      = IdentifierTarget ''AB'' None" by simp
  from valid_name_fixed_unless_upper_snake [OF ab_valid, of upperSnakeConfig
      "\<lparr> node_id = IdentifierTarget ''AB'' None, node_init = Some Literal \<rparr>" None failingServices]
  have ab: "caseConverters UPPER_SNAKE_CASE ''AB'' \<noteq> ''AB''"
    and silent: "findings upperSnakeConfig failingServices
        \<lparr> node_id = IdentifierTarget ''AB'' None, node_init = Some Literal \<rparr> = []"
    by (simp_all only: ab_second_capital upper_snake_caseType target simp_thms)
  from valid_name_fixed_unless_upper_snake [OF a1_valid, of upperSnakeConfig
      "\<lparr> node_id = IdentifierTarget ''A_1'' None, node_init = Some Literal \<rparr>" None failingServices]
  have a1: "caseConverters UPPER_SNAKE_CASE ''A_1'' = ''A_1''"
    by (simp only: a1_no_capital simp_thms)
  from valid_name_fixed_unless_upper_snake [OF camel, of defaultConfig
      "\<lparr> node_id = IdentifierTarget ''myVariable'' None, node_init = Some Literal \<rparr>" None
      failingServices]
  have mv: "caseConverters camelCase ''myVariable'' = ''myVariable''"
    by (simp only: CaseType.distinct simp_thms)
  from ab_valid ab silent a1_valid a1 camel mv show ?thesis by (simp only: simp_thms)
qed




text \<open>
  C8, as stated: the empty name validates under every convention. Each validator asks
  for a first character, so the empty name validates under none; camelCase is shown.
\<close>

theorem empty_name_validates_refuted: "\<not> caseValidators camelCase ''''"
  by simp

text \<open>
  C8, amended: under every convention the empty name does not validate and is converted
  to itself. Both functions are total: a test or a replacement on a string cannot throw.
\<close>

theorem empty_name_rejected_and_kept:
  "caseValidators C '''' = False \<and> caseConverters C '''' = ''''"
  by (cases C) (simp_all add: toLowerCase_def toUpperCase_def)

section \<open>The decision of the visitor\<close>

text \<open>
  C1. A finding is reported exactly when the declarator passes the guard chain, its name
  does not validate and the converted name differs from the name; the finding carries
  the name, the convention and the converted name, which is also the text of the fix.
  In particular nothing is reported when the converter returns the name itself.
\<close>

theorem finding_iff_in_scope_invalid_and_renamed:
  "findings cfg sv node =
    (case node_id node of
       IdentifierTarget varName ann \<Rightarrow>
         if inScope cfg sv node \<and> \<not> isValidCase cfg varName
            \<and> convertToCase cfg varName \<noteq> varName
         then [\<lparr> currentName = varName, expectedCase = caseType cfg,
                 suggestedName = convertToCase cfg varName,
                 fixText = convertToCase cfg varName \<rparr>]
         else []
     | _ \<Rightarrow> [])"
  by (cases "node_id node")
    (simp_all add: findings_def VariableDeclarator_def inScope_def reportNamingIssue_def Let_def)

theorem finding_iff_in_scope_invalid_and_renamed_witness:
  "findings defaultConfig failingServices
     \<lparr> node_id = IdentifierTarget ''my_variable'' None, node_init = Some Literal \<rparr>
   = [\<lparr> currentName = ''my_variable'', expectedCase = camelCase,
        suggestedName = ''myVariable'', fixText = ''myVariable'' \<rparr>]
   \<and> findings defaultConfig failingServices
     \<lparr> node_id = IdentifierTarget ''a_'' None, node_init = Some Literal \<rparr> = []"
proof -
  have reportedOne: "findings defaultConfig failingServices
     \<lparr> node_id = IdentifierTarget ''my_variable'' None, node_init = Some Literal \<rparr>
   = [\<lparr> currentName = ''my_variable'', expectedCase = camelCase,
        suggestedName = ''myVariable'', fixText = ''myVariable'' \<rparr>]"
    by (subst finding_iff_in_scope_invalid_and_renamed)
      (simp only: Declarator.simps BindingName.case literal_in_scope isValidCase_def
        convertToCase_def default_caseType my_variable_converted my_variable_invalid
        my_variable_renamed simp_thms if_True)
  have reportedNone: "findings defaultConfig failingServices
     \<lparr> node_id = IdentifierTarget ''a_'' None, node_init = Some Literal \<rparr> = []"
    by (subst finding_iff_in_scope_invalid_and_renamed)
      (simp only: Declarator.simps BindingName.case literal_in_scope isValidCase_def
        convertToCase_def default_caseType trailing_separator_kept
        trailing_separator_invalid simp_thms if_False)
  from reportedOne reportedNone show ?thesis by (rule conjI)
qed

text \<open>
  C5. A declarator whose binding target is a pattern yields no finding under any
  configuration and any host: the visitor leaves at its first return when
  \<open>ignoreDestructuring\<close> is set and at its second return otherwise, whatever the scope
  lookup, the allowlist, the type query and the initializer are.
\<close>

theorem destructuring_target_excluded:
  assumes "node_id node = ArrayPattern \<or> node_id node = ObjectPattern"
  shows "findings cfg sv node = []
    \<and> VariableDeclarator cfg sv node =
        (if ignoreDestructuring cfg then ReturnIgnoredDestructuring else ReturnNotIdentifier)"
  using assms by (auto simp add: findings_def VariableDeclarator_def)

theorem destructuring_target_excluded_witness:
  "findings ignoringConfig typedServices destructured = []
   \<and> VariableDeclarator ignoringConfig typedServices destructured = ReturnIgnoredDestructuring
   \<and> findings defaultConfig typedServices destructured = []
   \<and> VariableDeclarator defaultConfig typedServices destructured = ReturnNotIdentifier"
proof -
  have pattern: "node_id destructured = ArrayPattern \<or> node_id destructured = ObjectPattern"
    by (simp add: destructured_def)
  have ignoring: "ignoreDestructuring ignoringConfig"
    by (simp add: ignoringConfig_def)
  have keeping: "\<not> ignoreDestructuring defaultConfig"
    by (simp add: defaultConfig_def)
  from destructuring_target_excluded [OF pattern, of ignoringConfig typedServices]
    destructuring_target_excluded [OF pattern, of defaultConfig typedServices]
    ignoring keeping
  show ?thesis by simp
qed

section \<open>The type classifier\<close>




text \<open>
  C9. An identifier annotated with the keyword \<open>any\<close> has a dynamic type whatever the
  list of excluded types and whatever the type query would answer: the annotation is
  read first.
\<close>

theorem any_annotation_is_dynamic:
  assumes "node_id node = IdentifierTarget n (Some TSAnyKeyword)"
  shows "hasAnyType cfg sv node"
  using assms by (simp add: hasAnyType_def)

theorem any_annotation_is_dynamic_witness:
  "excludeTypes excludeAnyConfig = [''any'']
   \<and> hasAnyType excludeAnyConfig typedServices annotatedAny
   \<and> hasAnyType excludeAnyConfig failingServices annotatedAny"
proof -
  have annotated: "node_id annotatedAny = IdentifierTarget ''raw_payload'' (Some TSAnyKeyword)"
    by (simp add: annotatedAny_def)
  have excluded: "excludeTypes excludeAnyConfig = [''any'']"
    by (simp add: excludeAnyConfig_def)
  from excluded any_annotation_is_dynamic [OF annotated, of excludeAnyConfig typedServices]
    any_annotation_is_dynamic [OF annotated, of excludeAnyConfig failingServices]
  show ?thesis by blast
qed

section \<open>The factory heuristic and the shape classifier\<close>

text \<open>
  C7. With an empty list of component creators and an empty list of styled libraries
  \<open>isComponentCreator\<close> is false on every initializer, a missing one included.
\<close>

theorem empty_factory_lists_disable_heuristic:
  assumes "componentCreators cfg = []" and "styledLibraries cfg = []"
  shows "\<not> isComponentCreator cfg init"
proof (cases init)
  case None
  then show ?thesis by (simp add: isComponentCreator_def)
next
  case (Some e)
  with assms show ?thesis
    by (simp add: isComponentCreator_def isComponentCreatorNode.simps [of cfg e])
qed

theorem empty_factory_lists_disable_heuristic_witness:
  "componentCreators (create neverMatches noFactoryOptions) = []
   \<and> styledLibraries (create neverMatches noFactoryOptions) = []
   \<and> \<not> isComponentCreator (create neverMatches noFactoryOptions)
        (Some (CallExpression (Identifier ''lazy'')))
   \<and> \<not> isComponentCreator (create neverMatches noFactoryOptions)
        (Some (TaggedTemplateExpression (MemberExpression (Identifier ''styled''))))"
proof -
  have creators: "componentCreators (create neverMatches noFactoryOptions) = []"
    by (simp add: create_def noFactoryOptions_def noOptions_def orElse_def)
  have libraries: "styledLibraries (create neverMatches noFactoryOptions) = []"
    by (simp add: create_def noFactoryOptions_def noOptions_def orElse_def)
  from creators libraries
    empty_factory_lists_disable_heuristic [OF creators libraries,
      of "Some (CallExpression (Identifier ''lazy''))"]
    empty_factory_lists_disable_heuristic [OF creators libraries,
      of "Some (TaggedTemplateExpression (MemberExpression (Identifier ''styled'')))"]
  show ?thesis by blast
qed

lemma identifier_call_without_hook:
  assumes "hookPattern cfg = None" and "node_init node = Some (CallExpression (Identifier n))"
  shows "\<not> isSimpleValue cfg sv node"
  using assms by (simp add: isSimpleValue_def simpleTypes_def)

lemma create_hookPattern_absent:
  "opt_hookPattern options = None \<Longrightarrow> hookPattern (create regExp options) = None"
  by (simp add: create_def)

text \<open>
  C3, as stated: with the hook pattern disabled, a call whose callee is a bare
  identifier is classified as simple by the rule for call expressions. With the options
  object \<open>{}\<close> the pattern is disabled and \<open>const data = fetchData()\<close> is not simple:
  the branch for an identifier callee returns false and the rule for call expressions
  is not reached.
\<close>

theorem hook_disabled_call_classified_simple_refuted:
  "opt_hookPattern noOptions = None
   \<and> \<not> isSimpleValue (create neverMatches noOptions) failingServices
       \<lparr> node_id = IdentifierTarget ''data'' None,
         node_init = Some (CallExpression (Identifier ''fetchData'')) \<rparr>"
proof -
  have absent: "opt_hookPattern noOptions = None"
    by (simp add: noOptions_def)
  from absent have "hookPattern (create neverMatches noOptions) = None"
    by (rule create_hookPattern_absent)
  then have "\<not> isSimpleValue (create neverMatches noOptions) failingServices
       \<lparr> node_id = IdentifierTarget ''data'' None,
         node_init = Some (CallExpression (Identifier ''fetchData'')) \<rparr>"
    by (rule identifier_call_without_hook) simp
  with absent show ?thesis by (rule conjI)
qed

text \<open>
  C3, amended: when the hook pattern is missing or \<open>null\<close> in the options, no hook
  pattern is bound, and a declarator whose initializer is a call with a bare identifier
  as callee is classified as not simple; the rule for call expressions applies to the
  other callees only.
\<close>

theorem hook_disabled_identifier_call_not_simple:
  assumes "opt_hookPattern options = None"
    and "node_init node = Some (CallExpression (Identifier n))"
  shows "hookPattern (create regExp options) = None
    \<and> \<not> isSimpleValue (create regExp options) sv node"
proof -
  from assms(1) have none: "hookPattern (create regExp options) = None"
    by (rule create_hookPattern_absent)
  from none assms(2) have "\<not> isSimpleValue (create regExp options) sv node"
    by (rule identifier_call_without_hook)
  with none show ?thesis by (rule conjI)
qed

theorem hook_disabled_identifier_call_not_simple_witness:
  "opt_hookPattern noOptions = None
   \<and> hookPattern (create neverMatches noOptions) = None
   \<and> \<not> isSimpleValue (create neverMatches noOptions) typedServices
       \<lparr> node_id = IdentifierTarget ''state'' None,
         node_init = Some (CallExpression (Identifier ''useState'')) \<rparr>"
proof -
  have absent: "opt_hookPattern noOptions = None"
    by (simp add: noOptions_def)
  have call: "node_init \<lparr> node_id = IdentifierTarget ''state'' None,
         node_init = Some (CallExpression (Identifier ''useState'')) \<rparr>
       = Some (CallExpression (Identifier ''useState''))"
    by simp
  from hook_disabled_identifier_call_not_simple [OF absent call] absent
  show ?thesis by (rule conjI [rotated])
qed

lemma tagged_template_not_simple:
  assumes "node_init node = Some (TaggedTemplateExpression tag)"
  shows "\<not> isSimpleValue cfg sv node"
  using assms by (simp add: isSimpleValue_def simpleTypes_def)

text \<open>
  C10. A declarator whose initializer is a tagged template is never a simple value,
  whether its tag names a styled library or not; it passes the guard chain only with a
  dynamic type, and without one it yields no finding.
\<close>

theorem tagged_template_only_in_scope_when_dynamic:
  assumes "node_init node = Some (TaggedTemplateExpression tag)"
  shows "\<not> isSimpleValue cfg sv node
    \<and> (inScope cfg sv node \<longrightarrow> hasAnyType cfg sv node)
    \<and> (\<not> hasAnyType cfg sv node \<longrightarrow> findings cfg sv node = [])"
proof -
  from assms have notSimple: "\<not> isSimpleValue cfg sv node"
    by (rule tagged_template_not_simple)
  then have "inScope cfg sv node \<longrightarrow> hasAnyType cfg sv node"
    by (cases "node_id node") (auto simp add: inScope_def)
  moreover from notSimple
  have "\<not> hasAnyType cfg sv node \<longrightarrow> findings cfg sv node = []"
    by (cases "node_id node") (simp_all add: findings_def VariableDeclarator_def Let_def)
  ultimately show ?thesis using notSimple by blast
qed

theorem tagged_template_only_in_scope_when_dynamic_witness:
  "\<not> isSimpleValue defaultConfig failingServices styledButton
   \<and> \<not> isSimpleValue defaultConfig failingServices sqlQuery
   \<and> \<not> hasAnyType defaultConfig failingServices sqlQuery
   \<and> findings defaultConfig failingServices sqlQuery = []"
proof -
  have styled: "node_init styledButton
      = Some (TaggedTemplateExpression (MemberExpression (Identifier ''styled'')))"
    by (simp add: styledButton_def)
  have sql: "node_init sqlQuery = Some (TaggedTemplateExpression (Identifier ''sql''))"
    by (simp add: sqlQuery_def)
  have static: "\<not> hasAnyType defaultConfig failingServices sqlQuery"
    by (simp add: hasAnyType_def sqlQuery_def failingServices_def)
  from tagged_template_only_in_scope_when_dynamic [OF styled, of defaultConfig failingServices]
    tagged_template_only_in_scope_when_dynamic [OF sql, of defaultConfig failingServices]
    static
  show ?thesis by blast
qed

end
